theory Spec2Isabelle
  imports Main
begin

section \<open>Python text\<close>

text \<open>
  A Python \<open>str\<close> is a sequence of Unicode code points. The server formats messages with
  Chinese text and strips Unicode whitespace, so a string is modelled as the list of its
  code points; \<open>ascii\<close> embeds the ASCII literals of the source.
\<close>

type_synonym pystr = "nat list"

definition ascii :: "string \<Rightarrow> pystr" where
  "ascii s = map of_char s"

text \<open>The code points for which \<open>str.isspace\<close> holds; \<open>str.strip()\<close> removes exactly these.\<close>

definition is_space :: "nat \<Rightarrow> bool" where
  "is_space c = (c \<in> set [0x09, 0x0A, 0x0B, 0x0C, 0x0D, 0x1C, 0x1D, 0x1E, 0x1F, 0x20, 0x85, 0xA0,
     0x1680, 0x2000, 0x2001, 0x2002, 0x2003, 0x2004, 0x2005, 0x2006, 0x2007, 0x2008, 0x2009,
     0x200A, 0x2028, 0x2029, 0x202F, 0x205F, 0x3000])"

text \<open>\<open>s.strip()\<close>\<close>

definition py_strip :: "pystr \<Rightarrow> pystr" where
  "py_strip s = rev (dropWhile is_space (rev (dropWhile is_space s)))"

text \<open>\<open>s.rstrip(c)\<close> for a one-character argument: every trailing \<open>c\<close> goes.\<close>

definition py_rstrip :: "nat \<Rightarrow> pystr \<Rightarrow> pystr" where
  "py_rstrip c s = rev (dropWhile (\<lambda>x. x = c) (rev s))"

text \<open>
  \<open>s.split(sep)\<close> for a one-character separator: every occurrence splits, and the empty
  string gives one empty piece.
\<close>

fun py_split :: "nat \<Rightarrow> pystr \<Rightarrow> pystr list" where
  "py_split sep [] = [ [] ]"
| "py_split sep (c # cs) =
     (if c = sep then [] # py_split sep cs
      else (case py_split sep cs of
              [] \<Rightarrow> [ [c] ]
            | l # ls \<Rightarrow> (c # l) # ls))"

text \<open>\<open>s.split(sep, 1)\<close>: at most one split, at the first occurrence of \<open>sep\<close>.\<close>

definition py_split1 :: "nat \<Rightarrow> pystr \<Rightarrow> pystr list" where
  "py_split1 sep s =
     (if sep \<in> set s
      then [takeWhile (\<lambda>c. c \<noteq> sep) s, tl (dropWhile (\<lambda>c. c \<noteq> sep) s)]
      else [s])"

text \<open>\<open>str(n)\<close> for a Python \<open>int\<close>: decimal digits, with a minus sign below zero.\<close>

fun digits10 :: "nat \<Rightarrow> pystr" where
  "digits10 n = (if n < 10 then [48 + n] else digits10 (n div 10) @ [48 + n mod 10])"

declare digits10.simps [simp del]

definition py_str_int :: "int \<Rightarrow> pystr" where
  "py_str_int i = (if i < 0 then 45 # digits10 (nat (- i)) else digits10 (nat i))"

text \<open>
  \<open>str(list_of_str)\<close> for strings that need no escaping (no quote, backslash or
  non-printable character), which is the case of every key of the analysis table.
\<close>

fun py_join :: "pystr \<Rightarrow> pystr list \<Rightarrow> pystr" where
  "py_join sep [] = []"
| "py_join sep [x] = x"
| "py_join sep (x # y # ys) = x @ sep @ py_join sep (y # ys)"

definition py_repr_list :: "pystr list \<Rightarrow> pystr" where
  "py_repr_list xs =
     ascii ''['' @ py_join (ascii '', '') (map (\<lambda>x. ascii [CHR 0x27] @ x @ ascii [CHR 0x27]) xs)
       @ ascii '']''"

text \<open>Truthiness of an optional string and of an optional integer.\<close>

fun truthy_str :: "pystr option \<Rightarrow> bool" where
  "truthy_str None = False"
| "truthy_str (Some s) = (s \<noteq> [])"


section \<open>Exceptions and the process boundary\<close>

text \<open>
  The exception classes that \<open>subprocess.run\<close> can raise, and one class for every other
  subclass of \<open>Exception\<close>. An exception value carries its class and its \<open>str(e)\<close>.
\<close>

datatype exc_class =
    SubprocessError | CalledProcessError | TimeoutExpired
  | OSError | FileNotFoundError | PermissionError
  | ValueError | UnicodeDecodeError
  | KeyError
  | OtherException

datatype py_exc = Exc (exc_cls: exc_class) (exc_str: pystr)

text \<open>\<open>isinstance(e, subprocess.SubprocessError)\<close>\<close>

fun is_SubprocessError :: "exc_class \<Rightarrow> bool" where
  "is_SubprocessError SubprocessError = True"
| "is_SubprocessError CalledProcessError = True"
| "is_SubprocessError TimeoutExpired = True"
| "is_SubprocessError _ = False"

text \<open>
  What the operating system does with one argument vector: the process runs and exits
  with a status, its output decoded to text, or starting it (or decoding its output) raises.
\<close>

datatype os_outcome =
    Exited int pystr pystr
  | Fails py_exc

record completed =
  returncode :: int
  stdout :: pystr
  stderr :: pystr

text \<open>
  The world outside the server: how the system answers each argument vector, the text
  the library gives a \<open>CalledProcessError\<close>, the clock as \<open>int(time.time())\<close>, and the
  argument vectors handed to \<open>subprocess.run\<close> so far, oldest first.
\<close>

record world =
  respond :: "pystr list \<Rightarrow> os_outcome"
  cpe_text :: "pystr list \<Rightarrow> int \<Rightarrow> pystr"
  clock :: int
  spawned :: "pystr list list"

text \<open>
  \<open>subprocess.run(cmd, stdout=PIPE, stderr=PIPE, text=True, check=check)\<close>: with
  \<open>check\<close>, a non-zero exit status is raised as \<open>CalledProcessError\<close>.
\<close>

definition subprocess_run :: "bool \<Rightarrow> pystr list \<Rightarrow> world \<Rightarrow> world \<times> (py_exc + completed)" where
  "subprocess_run check cmd w =
     (let w' = w\<lparr>spawned := spawned w @ [cmd]\<rparr> in
      case respond w cmd of
        Fails e \<Rightarrow> (w', Inl e)
      | Exited rc out err \<Rightarrow>
          if check \<and> rc \<noteq> 0
          then (w', Inl (Exc CalledProcessError (cpe_text w cmd rc)))
          else (w', Inr \<lparr>returncode = rc, stdout = out, stderr = err\<rparr>))"

text \<open>A world whose system answers every argument vector the same way.\<close>

definition always :: "os_outcome \<Rightarrow> world" where
  "always r = \<lparr>respond = (\<lambda>_. r), cpe_text = (\<lambda>_ _. []), clock = 1700000000, spawned = []\<rparr>"

section \<open>Capability probes\<close>

definition version_cmd :: "pystr list" where
  "version_cmd = [ascii ''tshark'', ascii ''--version'']"

definition check_wireshark_installed :: "world \<Rightarrow> world \<times> (py_exc + bool)" where
  "check_wireshark_installed w =
     (case subprocess_run True version_cmd w of
        (w', Inr _) \<Rightarrow> (w', Inr True)
      | (w', Inl e) \<Rightarrow>
          if is_SubprocessError (exc_cls e) \<or> exc_cls e = FileNotFoundError
          then (w', Inr False)
          else (w', Inl e))"

record interface_record =
  index :: pystr
  interface :: pystr

definition list_cmd :: "pystr list" where
  "list_cmd = [ascii ''tshark'', ascii ''-D'']"

text \<open>
  The body of the loop of \<open>get_available_interfaces\<close> for one non-empty line:
  \<open>parts = line.split(' ', 1)\<close>, and a record when \<open>len(parts) > 1\<close>.
\<close>

definition interface_of_line :: "pystr \<Rightarrow> interface_record option" where
  "interface_of_line line =
     (case py_split1 32 line of
        p0 # p1 # _ \<Rightarrow> Some \<lparr>index = py_rstrip 46 p0, interface = p1\<rparr>
      | _ \<Rightarrow> None)"

text \<open>The loop over the lines, appending to \<open>interfaces\<close>.\<close>

fun parse_interface_lines :: "pystr list \<Rightarrow> interface_record list \<Rightarrow> interface_record list" where
  "parse_interface_lines [] interfaces = interfaces"
| "parse_interface_lines (line # lines) interfaces =
     (if line \<noteq> []
      then (case interface_of_line line of
              Some r \<Rightarrow> parse_interface_lines lines (interfaces @ [r])
            | None \<Rightarrow> parse_interface_lines lines interfaces)
      else parse_interface_lines lines interfaces)"

definition get_available_interfaces :: "world \<Rightarrow> world \<times> (py_exc + interface_record list)" where
  "get_available_interfaces w =
     (case subprocess_run True list_cmd w of
        (w', Inr result) \<Rightarrow>
          (w', Inr (parse_interface_lines (py_split 10 (py_strip (stdout result))) []))
      | (w', Inl e) \<Rightarrow>
          if is_SubprocessError (exc_cls e) then (w', Inr []) else (w', Inl e))"

text \<open>
  The parsing of one line as the specification words it: split at the first whitespace
  character, strip trailing periods from the first part, drop a line with no second part.
\<close>

definition spec_interface_of_line :: "pystr \<Rightarrow> interface_record option" where
  "spec_interface_of_line line =
     (if list_ex is_space line
      then Some \<lparr>index = py_rstrip 46 (takeWhile (\<lambda>c. \<not> is_space c) line),
                 interface = tl (dropWhile (\<lambda>c. \<not> is_space c) line)\<rparr>
      else None)"

text \<open>
  The parsing of the whole output as the specification words it: every non-empty line of
  the output, as printed, is parsed on its own.
\<close>

definition spec_parse_interfaces :: "pystr \<Rightarrow> interface_record list" where
  "spec_parse_interfaces out =
     List.map_filter spec_interface_of_line (filter (\<lambda>l. l \<noteq> []) (py_split 10 out))"

section \<open>Capture, read and analyse\<close>

text \<open>
  The handlers return dictionaries with string keys such as \<open>success\<close>, \<open>stdout\<close>,
  \<open>stderr\<close>, \<open>output_file\<close> and \<open>error\<close>; a dictionary is a finite map from its
  key to a value.
\<close>

text \<open>
  \<open>PyTime s\<close> is the float that \<open>time.time()\<close> returns, known here by its whole
  seconds \<open>s\<close>.
\<close>

datatype pyval = PyBool bool | PyStr pystr | PyNone | PyInt int | PyTime int

type_synonym result = "string \<rightharpoonup> pyval"

text \<open>\<open>if v: cmd.extend([flag, v])\<close> for an optional string \<open>v\<close>.\<close>

fun extend_if_str :: "pystr \<Rightarrow> pystr option \<Rightarrow> pystr list" where
  "extend_if_str flag None = []"
| "extend_if_str flag (Some v) = (if v \<noteq> [] then [flag, v] else [])"

text \<open>\<open>if limit: cmd.extend(["-c", str(limit)])\<close>\<close>

fun extend_if_limit :: "int option \<Rightarrow> pystr list" where
  "extend_if_limit None = []"
| "extend_if_limit (Some n) = (if n \<noteq> 0 then [ascii ''-c'', py_str_int n] else [])"

text \<open>The dictionary of the \<open>except subprocess.SubprocessError\<close> branches.\<close>

definition failure :: "pystr \<Rightarrow> result" where
  "failure msg = [''success'' \<mapsto> PyBool False, ''error'' \<mapsto> PyStr msg]"

definition capture_cmd :: "pystr \<Rightarrow> int \<Rightarrow> pystr option \<Rightarrow> pystr option \<Rightarrow> pystr list" where
  "capture_cmd iface duration filter_str output_file =
     [ascii ''tshark'', ascii ''-i'', iface, ascii ''-a'',
      ascii ''duration:'' @ py_str_int duration]
     @ extend_if_str (ascii ''-f'') filter_str
     @ extend_if_str (ascii ''-w'') output_file"

definition capture_packets ::
  "pystr \<Rightarrow> int \<Rightarrow> pystr option \<Rightarrow> pystr option \<Rightarrow> world \<Rightarrow> world \<times> (py_exc + result)" where
  "capture_packets iface duration filter_str output_file w =
     (case subprocess_run False (capture_cmd iface duration filter_str output_file) w of
        (w', Inr r) \<Rightarrow>
          (w', Inr [''success'' \<mapsto> PyBool (returncode r = 0),
                    ''stdout'' \<mapsto> PyStr (stdout r),
                    ''stderr'' \<mapsto> PyStr (stderr r),
                    ''output_file'' \<mapsto>
                      (case output_file of
                         None \<Rightarrow> PyNone
                       | Some f \<Rightarrow> if f \<noteq> [] then PyStr f else PyNone)])
      | (w', Inl e) \<Rightarrow>
          if is_SubprocessError (exc_cls e) then (w', Inr (failure (exc_str e)))
          else (w', Inl e))"

definition read_cmd :: "pystr \<Rightarrow> pystr option \<Rightarrow> int option \<Rightarrow> pystr list" where
  "read_cmd file_path filter_str limit =
     [ascii ''tshark'', ascii ''-r'', file_path]
     @ extend_if_str (ascii ''-Y'') filter_str
     @ extend_if_limit limit"

definition read_capture_file ::
  "pystr \<Rightarrow> pystr option \<Rightarrow> int option \<Rightarrow> world \<Rightarrow> world \<times> (py_exc + result)" where
  "read_capture_file file_path filter_str limit w =
     (case subprocess_run False (read_cmd file_path filter_str limit) w of
        (w', Inr r) \<Rightarrow>
          (w', Inr [''success'' \<mapsto> PyBool (returncode r = 0),
                    ''stdout'' \<mapsto> PyStr (stdout r),
                    ''stderr'' \<mapsto> PyStr (stderr r)])
      | (w', Inl e) \<Rightarrow>
          if is_SubprocessError (exc_cls e) then (w', Inr (failure (exc_str e)))
          else (w', Inl e))"

text \<open>The table of \<open>analyze_capture\<close>, in the order the source writes it.\<close>

definition supported_types :: "(pystr \<times> pystr) list" where
  "supported_types =
     [(ascii ''conversations'', ascii ''conv,ip''),
      (ascii ''endpoints'', ascii ''endpoints,ip''),
      (ascii ''protocols'', ascii ''io,phs''),
      (ascii ''http'', ascii ''http,tree''),
      (ascii ''dns'', ascii ''dns,tree'')]"

text \<open>
  The message for an unknown analysis type; the two literals are the source's Chinese
  text, \<open>"unsupported analysis type: "\<close> and \<open>". supported types: "\<close>, as code points.
\<close>

definition unsupported_msg :: "pystr \<Rightarrow> pystr" where
  "unsupported_msg analysis_type =
     [0x4E0D, 0x652F, 0x6301, 0x7684, 0x5206, 0x6790, 0x7C7B, 0x578B, 0x3A, 0x20]
     @ analysis_type
     @ [0x2E, 0x20, 0x652F, 0x6301, 0x7684, 0x7C7B, 0x578B, 0x3A, 0x20]
     @ py_repr_list (map fst supported_types)"

definition analyze_cmd :: "pystr \<Rightarrow> pystr \<Rightarrow> pystr list" where
  "analyze_cmd file_path selector =
     [ascii ''tshark'', ascii ''-r'', file_path, ascii ''-q'', ascii ''-z'', selector]"

text \<open>
  \<open>analysis_type not in supported_types\<close> and the later \<open>supported_types[analysis_type]\<close>
  are one lookup in the table.
\<close>

definition analyze_capture ::
  "pystr \<Rightarrow> pystr \<Rightarrow> world \<Rightarrow> world \<times> (py_exc + result)" where
  "analyze_capture file_path analysis_type w =
     (case map_of supported_types analysis_type of
        None \<Rightarrow> (w, Inr (failure (unsupported_msg analysis_type)))
      | Some selector \<Rightarrow>
          (case subprocess_run False (analyze_cmd file_path selector) w of
             (w', Inr r) \<Rightarrow>
               (w', Inr [''success'' \<mapsto> PyBool (returncode r = 0),
                         ''stdout'' \<mapsto> PyStr (stdout r),
                         ''stderr'' \<mapsto> PyStr (stderr r)])
           | (w', Inl e) \<Rightarrow>
               if is_SubprocessError (exc_cls e) then (w', Inr (failure (exc_str e)))
               else (w', Inl e)))"

section \<open>The capture tool\<close>

text \<open>\<open>f"capture_{int(time.time())}.pcap"\<close>\<close>

definition default_output_file :: "world \<Rightarrow> pystr" where
  "default_output_file w = ascii ''capture_'' @ py_str_int (clock w) @ ascii ''.pcap''"

text \<open>
  The body of the \<open>try\<close> of \<open>wireshark_capture_packets\<close>. Logging is not modelled; the
  read of \<open>result["success"]\<close> that chooses the log line raises \<open>KeyError\<close> on a
  dictionary without that key.
\<close>

definition capture_tool_body ::
  "pystr \<Rightarrow> int \<Rightarrow> pystr option \<Rightarrow> pystr option \<Rightarrow> world \<Rightarrow> world \<times> (py_exc + result)" where
  "capture_tool_body iface duration filter_str output_file w =
     (let output_file' =
            (if \<not> truthy_str output_file then Some (default_output_file w) else output_file)
      in case capture_packets iface duration filter_str output_file' w of
           (w', Inl e) \<Rightarrow> (w', Inl e)
         | (w', Inr r) \<Rightarrow>
             (case r ''success'' of
                None \<Rightarrow> (w', Inl (Exc KeyError (ascii [CHR 0x27] @ ascii ''success'' @ ascii [CHR 0x27])))
              | Some _ \<Rightarrow> (w', Inr r)))"

text \<open>
  The tool: \<open>except Exception as e\<close> catches every exception class of the model and
  returns the failure dictionary with \<open>str(e)\<close>.
\<close>

definition wireshark_capture_packets ::
  "pystr \<Rightarrow> int \<Rightarrow> pystr option \<Rightarrow> pystr option \<Rightarrow> world \<Rightarrow> world \<times> (py_exc + result)" where
  "wireshark_capture_packets iface duration filter_str output_file w =
     (case capture_tool_body iface duration filter_str output_file w of
        (w', Inr r) \<Rightarrow> (w', Inr r)
      | (w', Inl e) \<Rightarrow> (w', Inr (failure (exc_str e))))"

section \<open>The health check tool\<close>

text \<open>
  \<open>wireshark_health_check\<close>: the probe, then the enumeration when the probe answers
  true; any exception of either gives the dictionary of the \<open>except Exception\<close> branch.
\<close>

definition health_error :: "world \<Rightarrow> py_exc \<Rightarrow> result" where
  "health_error w e =
     [''status'' \<mapsto> PyStr (ascii ''error''), ''error'' \<mapsto> PyStr (exc_str e),
      ''timestamp'' \<mapsto> PyTime (clock w)]"

definition wireshark_health_check :: "world \<Rightarrow> world \<times> (py_exc + result)" where
  "wireshark_health_check w =
     (case check_wireshark_installed w of
        (w1, Inl e) \<Rightarrow> (w1, Inr (health_error w1 e))
      | (w1, Inr is_installed) \<Rightarrow>
          (case (if is_installed then get_available_interfaces w1 else (w1, Inr [])) of
             (w2, Inl e) \<Rightarrow> (w2, Inr (health_error w2 e))
           | (w2, Inr interfaces) \<Rightarrow>
               (w2, Inr [''status'' \<mapsto> PyStr (if is_installed then ascii ''ok'' else ascii ''error''),
                         ''wireshark_installed'' \<mapsto> PyBool is_installed,
                         ''interface_count'' \<mapsto> PyInt (int (length interfaces)),
                         ''timestamp'' \<mapsto> PyTime (clock w2)])))"

section \<open>Properties\<close>

subsection \<open>Installation probe\<close>

lemma check_installed_result:
  "snd (check_wireshark_installed w) =
     (case respond w version_cmd of
        Exited rc out err \<Rightarrow> Inr (rc = 0)
      | Fails e \<Rightarrow>
          if is_SubprocessError (exc_cls e) \<or> exc_cls e = FileNotFoundError
          then Inr False else Inl e)"
  by (simp add: check_wireshark_installed_def subprocess_run_def Let_def
      split: os_outcome.splits)

text \<open>
  C1, as the code has it. The probe runs the version query with \<open>check=True\<close>, so it
  answers true exactly when the process ran and exited with status 0. A process that ran
  and exited with another status gives false, and so does an absent binary
  (\<open>FileNotFoundError\<close>); in neither case is anything raised.
\<close>

theorem check_installed_true_iff_exit_zero:
  "(snd (check_wireshark_installed w) = Inr True
      \<longleftrightarrow> (\<exists>out err. respond w version_cmd = Exited 0 out err))
   \<and> (respond w version_cmd = Exited rc out err
      \<longrightarrow> snd (check_wireshark_installed w) = Inr (rc = 0))
   \<and> (respond w version_cmd = Fails (Exc FileNotFoundError m)
      \<longrightarrow> snd (check_wireshark_installed w) = Inr False)"
  by (auto simp: check_installed_result split: os_outcome.splits)

theorem check_installed_true_iff_exit_zero_witness:
  "snd (check_wireshark_installed (always (Exited 0 [] []))) = Inr True
   \<and> snd (check_wireshark_installed (always (Exited 2 [] []))) = Inr False
   \<and> snd (check_wireshark_installed (always (Fails (Exc FileNotFoundError [])))) = Inr False"
  using check_installed_true_iff_exit_zero [of "always (Exited 0 [] [])" 0 "[]" "[]" "[]"]
    check_installed_true_iff_exit_zero [of "always (Exited 2 [] [])" 2 "[]" "[]" "[]"]
    check_installed_true_iff_exit_zero [of "always (Fails (Exc FileNotFoundError []))" 0 "[]" "[]" "[]"]
  by (simp add: always_def)

text \<open>
  C1 as stated fails: a utility that starts and exits with status 1 was spawned
  successfully, yet the probe answers false, because the exit status is inspected.
\<close>

theorem check_installed_inspects_exit_status:
  "respond (always (Exited 1 [] [])) version_cmd = Exited 1 [] []
   \<and> snd (check_wireshark_installed (always (Exited 1 [] []))) = Inr False"
  by (simp add: check_wireshark_installed_def subprocess_run_def always_def)

subsection \<open>Interface enumeration\<close>

text \<open>
  C2 at an absent binary. \<open>subprocess.run\<close> raises \<open>FileNotFoundError\<close>, which is an
  \<open>OSError\<close> and not a \<open>SubprocessError\<close>: the enumeration lets it escape, where the
  installation probe on the same system answers false.
\<close>

theorem get_interfaces_raises_when_binary_absent:
  "snd (get_available_interfaces
          (always (Fails (Exc FileNotFoundError (ascii ''No such file or directory''))))) =
     Inl (Exc FileNotFoundError (ascii ''No such file or directory''))
   \<and> snd (check_wireshark_installed
          (always (Fails (Exc FileNotFoundError (ascii ''No such file or directory''))))) =
     Inr False"
  by (simp add: get_available_interfaces_def check_wireshark_installed_def subprocess_run_def
      always_def)

lemma parse_interface_lines_acc:
  "parse_interface_lines lines acc =
     acc @ List.map_filter interface_of_line (filter (\<lambda>l. l \<noteq> []) lines)"
  by (induction lines arbitrary: acc) (auto split: option.splits)

lemma split_at_first:
  assumes "sep \<in> set s"
  shows "s = takeWhile (\<lambda>c. c \<noteq> sep) s @ sep # tl (dropWhile (\<lambda>c. c \<noteq> sep) s)"
proof -
  have "dropWhile (\<lambda>c. c \<noteq> sep) s \<noteq> []"
    using assms by auto
  moreover have "hd (dropWhile (\<lambda>c. c \<noteq> sep) s) = sep"
    using calculation hd_dropWhile [of "\<lambda>c. c \<noteq> sep" s] by simp
  ultimately have "dropWhile (\<lambda>c. c \<noteq> sep) s = sep # tl (dropWhile (\<lambda>c. c \<noteq> sep) s)"
    by (cases "dropWhile (\<lambda>c. c \<noteq> sep) s") auto
  then show ?thesis
    using takeWhile_dropWhile_id [of "\<lambda>c. c \<noteq> sep" s] by simp
qed

lemma split_at_first_unique:
  assumes "sep \<notin> set tok"
  shows "takeWhile (\<lambda>c. c \<noteq> sep) (tok @ sep # rest) = tok"
    and "dropWhile (\<lambda>c. c \<noteq> sep) (tok @ sep # rest) = sep # rest"
  using assms by (induction tok) auto

lemma interface_of_line_Some:
  "interface_of_line l = Some r \<longleftrightarrow>
     (\<exists>tok rest. l = tok @ 32 # rest \<and> 32 \<notin> set tok
        \<and> r = \<lparr>index = py_rstrip 46 tok, interface = rest\<rparr>)"
proof
  assume h: "interface_of_line l = Some r"
  then have m: "32 \<in> set l"
    by (auto simp: interface_of_line_def py_split1_def split: if_splits)
  let ?tok = "takeWhile (\<lambda>c. c \<noteq> 32) l" and ?rest = "tl (dropWhile (\<lambda>c. c \<noteq> 32) l)"
  have "l = ?tok @ 32 # ?rest"
    using m by (rule split_at_first)
  moreover have "32 \<notin> set ?tok"
    by (auto dest: set_takeWhileD)
  moreover have "r = \<lparr>index = py_rstrip 46 ?tok, interface = ?rest\<rparr>"
    using h m by (simp add: interface_of_line_def py_split1_def)
  ultimately show "\<exists>tok rest. l = tok @ 32 # rest \<and> 32 \<notin> set tok
        \<and> r = \<lparr>index = py_rstrip 46 tok, interface = rest\<rparr>"
    by blast
next
  assume "\<exists>tok rest. l = tok @ 32 # rest \<and> 32 \<notin> set tok
        \<and> r = \<lparr>index = py_rstrip 46 tok, interface = rest\<rparr>"
  then obtain tok rest where l: "l = tok @ 32 # rest" and t: "32 \<notin> set tok"
    and r: "r = \<lparr>index = py_rstrip 46 tok, interface = rest\<rparr>"
    by blast
  show "interface_of_line l = Some r"
    using split_at_first_unique [OF t, of rest]
    by (simp add: interface_of_line_def py_split1_def l r)
qed

lemma interface_of_line_None: "interface_of_line l = None \<longleftrightarrow> 32 \<notin> set l"
  by (simp add: interface_of_line_def py_split1_def)

text \<open>
  C3, as the code has it. The output is first stripped of leading and trailing whitespace
  as a whole (\<open>stdout.strip()\<close>) and then split at its newline characters. Every
  non-empty line of that stripped text is split once at its first space character
  (U+0020, no other whitespace): the part before it, with every trailing period removed,
  is the index, and everything after it is the description. A line without a space gives
  no record. The records keep the order of the lines, and the two lines of the example
  give the two records of the example.
\<close>

theorem interface_lines_split_at_first_space:
  "(respond w list_cmd = Exited 0 out err \<longrightarrow>
      snd (get_available_interfaces w) =
        Inr (List.map_filter interface_of_line
               (filter (\<lambda>l. l \<noteq> []) (py_split 10 (py_strip out)))))
   \<and> (interface_of_line l = Some r \<longleftrightarrow>
        (\<exists>tok rest. l = tok @ 32 # rest \<and> 32 \<notin> set tok
           \<and> r = \<lparr>index = py_rstrip 46 tok, interface = rest\<rparr>))
   \<and> (interface_of_line l = None \<longleftrightarrow> 32 \<notin> set l)
   \<and> List.map_filter interface_of_line
        (filter (\<lambda>l. l \<noteq> []) [ascii ''1. en0 (Wi-Fi)'', ascii ''2. lo0 (Loopback)'']) =
       [\<lparr>index = ascii ''1'', interface = ascii ''en0 (Wi-Fi)''\<rparr>,
        \<lparr>index = ascii ''2'', interface = ascii ''lo0 (Loopback)''\<rparr>]
   \<and> py_split 10 (py_strip (ascii ''1. en0 (Wi-Fi)\<newline>2. lo0 (Loopback)\<newline>'')) =
       [ascii ''1. en0 (Wi-Fi)'', ascii ''2. lo0 (Loopback)'']"
proof (intro conjI)
  show "respond w list_cmd = Exited 0 out err \<longrightarrow>
      snd (get_available_interfaces w) =
        Inr (List.map_filter interface_of_line
               (filter (\<lambda>l. l \<noteq> []) (py_split 10 (py_strip out))))"
    by (simp add: get_available_interfaces_def subprocess_run_def parse_interface_lines_acc)
  show "interface_of_line l = Some r \<longleftrightarrow>
        (\<exists>tok rest. l = tok @ 32 # rest \<and> 32 \<notin> set tok
           \<and> r = \<lparr>index = py_rstrip 46 tok, interface = rest\<rparr>)"
    by (rule interface_of_line_Some)
  show "interface_of_line l = None \<longleftrightarrow> 32 \<notin> set l"
    by (rule interface_of_line_None)
  show "List.map_filter interface_of_line
        (filter (\<lambda>l. l \<noteq> []) [ascii ''1. en0 (Wi-Fi)'', ascii ''2. lo0 (Loopback)'']) =
       [\<lparr>index = ascii ''1'', interface = ascii ''en0 (Wi-Fi)''\<rparr>,
        \<lparr>index = ascii ''2'', interface = ascii ''lo0 (Loopback)''\<rparr>]"
    by (simp add: interface_of_line_def py_split1_def py_rstrip_def ascii_def)
  show "py_split 10 (py_strip (ascii ''1. en0 (Wi-Fi)\<newline>2. lo0 (Loopback)\<newline>'')) =
       [ascii ''1. en0 (Wi-Fi)'', ascii ''2. lo0 (Loopback)'']"
    by (simp add: ascii_def py_strip_def is_space_def)
qed

theorem interface_lines_split_at_first_space_witness:
  "snd (get_available_interfaces
          (always (Exited 0 (ascii ''1. en0 (Wi-Fi)\<newline>2. lo0 (Loopback)\<newline>'') []))) =
     Inr [\<lparr>index = ascii ''1'', interface = ascii ''en0 (Wi-Fi)''\<rparr>,
          \<lparr>index = ascii ''2'', interface = ascii ''lo0 (Loopback)''\<rparr>]
   \<and> interface_of_line (ascii ''eth0'') = None"
proof -
  let ?out = "ascii ''1. en0 (Wi-Fi)\<newline>2. lo0 (Loopback)\<newline>''"
  let ?w = "always (Exited 0 ?out [])"
  note t = interface_lines_split_at_first_space [of ?w ?out "[]" "ascii ''eth0''" undefined]
  have r: "respond ?w list_cmd = Exited 0 ?out []"
    by (simp add: always_def)
  have n: "32 \<notin> set (ascii ''eth0'')"
    by (simp add: ascii_def)
  have a: "snd (get_available_interfaces ?w) =
      Inr (List.map_filter interface_of_line
             (filter (\<lambda>l. l \<noteq> []) (py_split 10 (py_strip ?out))))"
    by (rule t [THEN conjunct1, rule_format, OF r])
  have s: "py_split 10 (py_strip ?out) = [ascii ''1. en0 (Wi-Fi)'', ascii ''2. lo0 (Loopback)'']"
    by (rule t [THEN conjunct2, THEN conjunct2, THEN conjunct2, THEN conjunct2])
  have b: "List.map_filter interface_of_line
        (filter (\<lambda>l. l \<noteq> []) [ascii ''1. en0 (Wi-Fi)'', ascii ''2. lo0 (Loopback)'']) =
       [\<lparr>index = ascii ''1'', interface = ascii ''en0 (Wi-Fi)''\<rparr>,
        \<lparr>index = ascii ''2'', interface = ascii ''lo0 (Loopback)''\<rparr>]"
    by (rule t [THEN conjunct2, THEN conjunct2, THEN conjunct2, THEN conjunct1])
  have c: "interface_of_line (ascii ''eth0'') = None"
    using t [THEN conjunct2, THEN conjunct2, THEN conjunct1] n by (rule iffD2)
  show ?thesis
    using a c by (simp only: s b)
qed

text \<open>
  C3 as stated fails in two ways. On a line whose only whitespace is a tab, splitting at
  the first whitespace would give index \<open>1\<close> and description \<open>en0\<close>; the code gives
  no record. And the code parses the lines of the stripped output, not the lines as
  printed: the output \<open>" 1. en0\neth0 \n"\<close> has the non-empty lines \<open>" 1. en0"\<close> and
  \<open>"eth0 "\<close>, which parsed on their own give two records, while the code gives the one
  record with index \<open>1\<close> and description \<open>en0\<close>.
\<close>

theorem interface_line_with_tab_dropped:
  "interface_of_line (ascii ''1.'' @ 9 # ascii ''en0'') = None
   \<and> spec_interface_of_line (ascii ''1.'' @ 9 # ascii ''en0'') =
       Some \<lparr>index = ascii ''1'', interface = ascii ''en0''\<rparr>
   \<and> snd (get_available_interfaces (always (Exited 0 (ascii ''1.'' @ 9 # ascii ''en0'') []))) =
       Inr []
   \<and> snd (get_available_interfaces
            (always (Exited 0 (ascii '' 1. en0\<newline>eth0 \<newline>'') []))) =
       Inr [\<lparr>index = ascii ''1'', interface = ascii ''en0''\<rparr>]
   \<and> spec_parse_interfaces (ascii '' 1. en0\<newline>eth0 \<newline>'') =
       [\<lparr>index = [], interface = ascii ''1. en0''\<rparr>, \<lparr>index = ascii ''eth0'', interface = []\<rparr>]"
  by (simp add: ascii_def interface_of_line_def py_split1_def spec_interface_of_line_def
      spec_parse_interfaces_def py_rstrip_def get_available_interfaces_def subprocess_run_def
      always_def py_strip_def is_space_def)

lemma supported_keys:
  "set (map fst supported_types) =
     {ascii ''conversations'', ascii ''endpoints'', ascii ''protocols'', ascii ''http'', ascii ''dns''}"
  by (simp add: supported_types_def)

lemma failure_fields:
  "failure m ''success'' = Some (PyBool False)"
  "failure m ''error'' = Some (PyStr m)"
  "failure m ''stdout'' = None"
  "failure m ''stderr'' = None"
  "failure m ''output_file'' = None"
  "dom (failure m) = {''success'', ''error''}"
  by (auto simp: failure_def)

subsection \<open>Analyse\<close>

text \<open>
  C4. For every analysis type outside \<open>conversations\<close>, \<open>endpoints\<close>, \<open>protocols\<close>,
  \<open>http\<close>, \<open>dns\<close>, \<open>analyze_capture\<close> returns the failure dictionary whose error
  message ends with the list of these five names, and it leaves the world as it was: no
  argument vector is handed to the system.
\<close>

theorem analyze_rejects_unknown_type:
  assumes "analysis_type \<notin> {ascii ''conversations'', ascii ''endpoints'', ascii ''protocols'',
             ascii ''http'', ascii ''dns''}"
  shows "analyze_capture file_path analysis_type w =
           (w, Inr (failure (unsupported_msg analysis_type)))
         \<and> failure (unsupported_msg analysis_type) ''success'' = Some (PyBool False)
         \<and> failure (unsupported_msg analysis_type) ''error'' =
             Some (PyStr (unsupported_msg analysis_type))
         \<and> (\<exists>pre. unsupported_msg analysis_type =
               pre @ ascii ''['conversations', 'endpoints', 'protocols', 'http', 'dns']'')
         \<and> spawned (fst (analyze_capture file_path analysis_type w)) = spawned w"
proof -
  have k: "analysis_type \<notin> set (map fst supported_types)"
    using assms unfolding supported_keys by blast
  have n: "map_of supported_types analysis_type = None"
    using k by (simp add: map_of_eq_None_iff)
  have a: "analyze_capture file_path analysis_type w =
           (w, Inr (failure (unsupported_msg analysis_type)))"
    by (simp add: analyze_capture_def n)
  have r: "py_repr_list (map fst supported_types) =
      ascii ''['conversations', 'endpoints', 'protocols', 'http', 'dns']''"
    by (simp add: py_repr_list_def supported_types_def ascii_def)
  have m: "\<exists>pre. unsupported_msg analysis_type =
               pre @ ascii ''['conversations', 'endpoints', 'protocols', 'http', 'dns']''"
    unfolding unsupported_msg_def r by (metis append.assoc)
  show ?thesis
    using a m by (simp add: failure_fields)
qed

theorem analyze_rejects_unknown_type_witness:
  "analyze_capture (ascii ''a.pcap'') (ascii ''tcp'') (always (Exited 0 [] [])) =
     (always (Exited 0 [] []), Inr (failure (unsupported_msg (ascii ''tcp''))))
   \<and> spawned (fst (analyze_capture (ascii ''a.pcap'') (ascii ''tcp'') (always (Exited 0 [] [])))) = []"
proof -
  have h: "ascii ''tcp'' \<notin> {ascii ''conversations'', ascii ''endpoints'', ascii ''protocols'',
             ascii ''http'', ascii ''dns''}"
    by (simp add: ascii_def)
  have s: "spawned (always (Exited 0 [] [])) = []"
    by (simp add: always_def)
  show ?thesis
    using analyze_rejects_unknown_type [OF h, of "ascii ''a.pcap''" "always (Exited 0 [] [])"] s
    by simp
qed

text \<open>
  C5. The table of analysis types has no key twice, so each key has exactly one selector;
  and for every entry of the table, \<open>analyze_capture\<close> hands the system the vector
  \<open>tshark -r <file> -q -z <selector>\<close> with the selector of that entry.
\<close>

theorem analyze_uses_mapped_selector:
  "distinct (map fst supported_types)
   \<and> ((name, s1) \<in> set supported_types \<and> (name, s2) \<in> set supported_types \<longrightarrow> s1 = s2)
   \<and> ((name, selector) \<in> set supported_types \<longrightarrow>
        fst (analyze_capture file_path name w) =
          w\<lparr>spawned := spawned w @
            [ [ascii ''tshark'', ascii ''-r'', file_path, ascii ''-q'', ascii ''-z'', selector] ]\<rparr>)"
proof (intro conjI impI)
  show d: "distinct (map fst supported_types)"
    by (simp add: supported_types_def ascii_def)
  show "s1 = s2" if "(name, s1) \<in> set supported_types \<and> (name, s2) \<in> set supported_types"
    using that d by (meson eq_key_imp_eq_value)
  show "fst (analyze_capture file_path name w) =
          w\<lparr>spawned := spawned w @
            [ [ascii ''tshark'', ascii ''-r'', file_path, ascii ''-q'', ascii ''-z'', selector] ]\<rparr>"
    if h: "(name, selector) \<in> set supported_types"
  proof -
    have m: "map_of supported_types name = Some selector"
      using h d by simp
    show ?thesis
      using m
      by (simp add: analyze_capture_def analyze_cmd_def subprocess_run_def Let_def
          split: os_outcome.splits)
  qed
qed

theorem analyze_uses_mapped_selector_witness:
  "fst (analyze_capture (ascii ''a.pcap'') (ascii ''dns'') (always (Exited 0 [] []))) =
     (always (Exited 0 [] []))\<lparr>spawned :=
        [ [ascii ''tshark'', ascii ''-r'', ascii ''a.pcap'', ascii ''-q'', ascii ''-z'',
          ascii ''dns,tree''] ]\<rparr>"
proof -
  have h: "(ascii ''dns'', ascii ''dns,tree'') \<in> set supported_types"
    by (simp add: supported_types_def)
  have s: "spawned (always (Exited 0 [] [])) = []"
    by (simp add: always_def)
  show ?thesis
    using analyze_uses_mapped_selector
      [of "ascii ''dns''" "ascii ''dns,tree''" "ascii ''dns,tree''" "ascii ''dns,tree''"
        "ascii ''a.pcap''" "always (Exited 0 [] [])"] h s
    by simp
qed






lemma subprocess_run_exited:
  "respond w cmd = Exited rc out err \<Longrightarrow>
     snd (subprocess_run False cmd w) = Inr \<lparr>returncode = rc, stdout = out, stderr = err\<rparr>"
  by (simp add: subprocess_run_def Let_def)

lemma subprocess_run_fails:
  "respond w cmd = Fails e \<Longrightarrow> snd (subprocess_run check cmd w) = Inl e"
  by (simp add: subprocess_run_def Let_def)


lemma capture_packets_exited:
  assumes "respond w (capture_cmd iface duration filter_str output_file) = Exited rc out err"
  shows "snd (capture_packets iface duration filter_str output_file w) =
     Inr [''success'' \<mapsto> PyBool (rc = 0), ''stdout'' \<mapsto> PyStr out, ''stderr'' \<mapsto> PyStr err,
          ''output_file'' \<mapsto> (case output_file of None \<Rightarrow> PyNone
                                 | Some f \<Rightarrow> if f \<noteq> [] then PyStr f else PyNone)]"
  using subprocess_run_exited [OF assms]
  by (auto simp: capture_packets_def split: prod.splits sum.splits)

lemma capture_packets_fails:
  assumes "respond w (capture_cmd iface duration filter_str output_file) = Fails e"
  shows "snd (capture_packets iface duration filter_str output_file w) =
     (if is_SubprocessError (exc_cls e) then Inr (failure (exc_str e)) else Inl e)"
  using subprocess_run_fails [OF assms, of False]
  by (auto simp: capture_packets_def split: prod.splits sum.splits)



subsection \<open>Capture\<close>





lemma read_capture_file_exited:
  assumes "respond w (read_cmd file_path filter_str limit) = Exited rc out err"
  shows "snd (read_capture_file file_path filter_str limit w) =
     Inr [''success'' \<mapsto> PyBool (rc = 0), ''stdout'' \<mapsto> PyStr out, ''stderr'' \<mapsto> PyStr err]"
  using subprocess_run_exited [OF assms]
  by (auto simp: read_capture_file_def split: prod.splits sum.splits)

lemma read_capture_file_fails:
  assumes "respond w (read_cmd file_path filter_str limit) = Fails e"
  shows "snd (read_capture_file file_path filter_str limit w) =
     (if is_SubprocessError (exc_cls e) then Inr (failure (exc_str e)) else Inl e)"
  using subprocess_run_fails [OF assms, of False]
  by (auto simp: read_capture_file_def split: prod.splits sum.splits)

lemma analyze_capture_exited:
  assumes "map_of supported_types analysis_type = Some selector"
    and "respond w (analyze_cmd file_path selector) = Exited rc out err"
  shows "snd (analyze_capture file_path analysis_type w) =
     Inr [''success'' \<mapsto> PyBool (rc = 0), ''stdout'' \<mapsto> PyStr out, ''stderr'' \<mapsto> PyStr err]"
  using assms(1) subprocess_run_exited [OF assms(2)]
  by (auto simp: analyze_capture_def split: prod.splits sum.splits)

lemma analyze_capture_fails:
  assumes "map_of supported_types analysis_type = Some selector"
    and "respond w (analyze_cmd file_path selector) = Fails e"
  shows "snd (analyze_capture file_path analysis_type w) =
     (if is_SubprocessError (exc_cls e) then Inr (failure (exc_str e)) else Inl e)"
  using assms(1) subprocess_run_fails [OF assms(2), of False]
  by (auto simp: analyze_capture_def split: prod.splits sum.splits)

subsection \<open>Outcome of a finished process\<close>

text \<open>
  C7, as the code has it. Whenever \<open>subprocess.run\<close> returns for the process that
  capture, read or analyse (of a known analysis type) starts, that is, whenever the process
  was started, ran to its end with exit status \<open>rc\<close> and its output was decoded as text,
  the operation returns a dictionary (it does not raise, zero or not) whose \<open>success\<close>
  is exactly \<open>rc = 0\<close> and whose \<open>stdout\<close> and \<open>stderr\<close> are the captured texts.
\<close>

theorem outcome_success_is_exit_zero:
  "(respond w (capture_cmd iface duration filter_str output_file) = Exited rc out err \<longrightarrow>
      (\<exists>r. snd (capture_packets iface duration filter_str output_file w) = Inr r
         \<and> r ''success'' = Some (PyBool (rc = 0))
         \<and> r ''stdout'' = Some (PyStr out) \<and> r ''stderr'' = Some (PyStr err)))
   \<and> (respond w (read_cmd file_path filter_str limit) = Exited rc out err \<longrightarrow>
      (\<exists>r. snd (read_capture_file file_path filter_str limit w) = Inr r
         \<and> r ''success'' = Some (PyBool (rc = 0))
         \<and> r ''stdout'' = Some (PyStr out) \<and> r ''stderr'' = Some (PyStr err)))
   \<and> (map_of supported_types analysis_type = Some selector
        \<and> respond w (analyze_cmd file_path selector) = Exited rc out err \<longrightarrow>
      (\<exists>r. snd (analyze_capture file_path analysis_type w) = Inr r
         \<and> r ''success'' = Some (PyBool (rc = 0))
         \<and> r ''stdout'' = Some (PyStr out) \<and> r ''stderr'' = Some (PyStr err)))"
  by (simp add: capture_packets_exited read_capture_file_exited analyze_capture_exited)

theorem outcome_success_is_exit_zero_witness:
  "(\<exists>r. snd (capture_packets (ascii ''1'') 5 None None
              (always (Exited 2 (ascii ''out'') (ascii ''err'')))) = Inr r
      \<and> r ''success'' = Some (PyBool False)
      \<and> r ''stdout'' = Some (PyStr (ascii ''out'')) \<and> r ''stderr'' = Some (PyStr (ascii ''err'')))
   \<and> (\<exists>r. snd (read_capture_file (ascii ''a.pcap'') None (Some 100)
              (always (Exited 2 (ascii ''out'') (ascii ''err'')))) = Inr r
      \<and> r ''success'' = Some (PyBool False)
      \<and> r ''stdout'' = Some (PyStr (ascii ''out'')) \<and> r ''stderr'' = Some (PyStr (ascii ''err'')))
   \<and> (\<exists>r. snd (analyze_capture (ascii ''a.pcap'') (ascii ''http'')
              (always (Exited 2 (ascii ''out'') (ascii ''err'')))) = Inr r
      \<and> r ''success'' = Some (PyBool False)
      \<and> r ''stdout'' = Some (PyStr (ascii ''out'')) \<and> r ''stderr'' = Some (PyStr (ascii ''err'')))"
proof -
  let ?w = "always (Exited 2 (ascii ''out'') (ascii ''err''))"
  have r: "respond ?w c = Exited 2 (ascii ''out'') (ascii ''err'')" for c
    by (simp add: always_def)
  have m: "map_of supported_types (ascii ''http'') = Some (ascii ''http,tree'')"
    by (simp add: supported_types_def ascii_def)
  show ?thesis
    using outcome_success_is_exit_zero [of ?w "ascii ''1''" 5 None None 2 "ascii ''out''"
        "ascii ''err''" "ascii ''a.pcap''" "Some 100" "ascii ''http''" "ascii ''http,tree''"]
      r m
    by simp
qed

text \<open>
  C7 as stated fails for a process that ran to its end, with whatever status, and wrote
  output that is not valid text: \<open>subprocess.run\<close> with \<open>text=True\<close> raises
  \<open>UnicodeDecodeError\<close>, no \<open>SubprocessError\<close>, and the three operations raise it.
\<close>

theorem outcome_raises_on_undecodable_output:
  "snd (capture_packets (ascii ''1'') 5 None None
          (always (Fails (Exc UnicodeDecodeError (ascii ''invalid start byte''))))) =
     Inl (Exc UnicodeDecodeError (ascii ''invalid start byte''))
   \<and> snd (read_capture_file (ascii ''a.pcap'') None (Some 100)
          (always (Fails (Exc UnicodeDecodeError (ascii ''invalid start byte''))))) =
     Inl (Exc UnicodeDecodeError (ascii ''invalid start byte''))
   \<and> snd (analyze_capture (ascii ''a.pcap'') (ascii ''http'')
          (always (Fails (Exc UnicodeDecodeError (ascii ''invalid start byte''))))) =
     Inl (Exc UnicodeDecodeError (ascii ''invalid start byte''))"
  by (simp add: capture_packets_def read_capture_file_def analyze_capture_def
      supported_types_def subprocess_run_def always_def ascii_def)

lemma tool_result:
  "snd (wireshark_capture_packets iface duration filter_str output_file w) =
     (case snd (capture_packets iface duration filter_str
                  (if \<not> truthy_str output_file then Some (default_output_file w)
                   else output_file) w) of
        Inl e \<Rightarrow> Inr (failure (exc_str e))
      | Inr r \<Rightarrow>
          (case r ''success'' of
             None \<Rightarrow> Inr (failure (ascii [CHR 0x27] @ ascii ''success'' @ ascii [CHR 0x27]))
           | Some _ \<Rightarrow> Inr r))"
  by (simp add: wireshark_capture_packets_def capture_tool_body_def Let_def
      split: prod.splits sum.splits option.splits)

lemma capture_packets_dom:
  assumes h: "snd (capture_packets iface duration filter_str output_file w) = Inr r"
  shows "dom r = {''success'', ''stdout'', ''stderr'', ''output_file''}
      \<or> dom r = {''success'', ''error''}"
proof (cases "respond w (capture_cmd iface duration filter_str output_file)")
  case (Exited rc out err)
  from capture_packets_exited [OF this] h show ?thesis by auto
next
  case (Fails e)
  from capture_packets_fails [OF this] h show ?thesis
    by (auto simp: failure_fields(6) split: if_splits)
qed

lemma read_capture_file_dom:
  assumes h: "snd (read_capture_file file_path filter_str limit w) = Inr r"
  shows "dom r = {''success'', ''stdout'', ''stderr''} \<or> dom r = {''success'', ''error''}"
proof (cases "respond w (read_cmd file_path filter_str limit)")
  case (Exited rc out err)
  from read_capture_file_exited [OF this] h show ?thesis by auto
next
  case (Fails e)
  from read_capture_file_fails [OF this] h show ?thesis
    by (auto simp: failure_fields split: if_splits)
qed

lemma analyze_capture_dom:
  assumes h: "snd (analyze_capture file_path analysis_type w) = Inr r"
  shows "dom r = {''success'', ''stdout'', ''stderr''} \<or> dom r = {''success'', ''error''}"
proof (cases "map_of supported_types analysis_type")
  case None
  with h have "r = failure (unsupported_msg analysis_type)"
    by (simp add: analyze_capture_def)
  then show ?thesis
    by (simp add: failure_fields(6))
next
  case (Some selector)
  show ?thesis
  proof (cases "respond w (analyze_cmd file_path selector)")
    case (Exited rc out err)
    from analyze_capture_exited [OF Some this] h show ?thesis by auto
  next
    case (Fails e)
    from analyze_capture_fails [OF Some this] h show ?thesis
      by (auto simp: failure_fields split: if_splits)
  qed
qed

lemma tool_dom:
  assumes h: "snd (wireshark_capture_packets iface duration filter_str output_file w) = Inr r"
  shows "dom r = {''success'', ''stdout'', ''stderr'', ''output_file''}
      \<or> dom r = {''success'', ''error''}"
proof (cases "snd (capture_packets iface duration filter_str
    (if \<not> truthy_str output_file then Some (default_output_file w) else output_file) w)")
  case (Inl e)
  then have "snd (wireshark_capture_packets iface duration filter_str output_file w) =
      Inr (failure (exc_str e))"
    by (simp add: tool_result)
  with h have "r = failure (exc_str e)"
    by simp
  then show ?thesis
    by (simp add: failure_fields(6))
next
  case (Inr r')
  then have d: "dom r' = {''success'', ''stdout'', ''stderr'', ''output_file''}
      \<or> dom r' = {''success'', ''error''}"
    by (rule capture_packets_dom)
  then have "r' ''success'' \<noteq> None"
    by auto
  with Inr have "snd (wireshark_capture_packets iface duration filter_str output_file w) =
      Inr r'"
    by (auto simp: tool_result)
  with h d show ?thesis
    by simp
qed

lemma tool_returns:
  "\<exists>r. snd (wireshark_capture_packets iface duration filter_str output_file w) = Inr r"
  by (simp add: tool_result split: sum.splits option.splits)

text \<open>
  C8, as the code has it. Every dictionary returned by capture, read, analyse or the
  capture tool has one of two shapes: the outcome of a process, with exactly the keys
  \<open>success\<close>, \<open>stdout\<close>, \<open>stderr\<close> (and \<open>output_file\<close> for a capture), or a failure,
  with exactly the keys \<open>success\<close> and \<open>error\<close>. No result has outcome fields and an
  error field together. The capture tool returns such a dictionary on every call.
  Capture and read return one whenever \<open>subprocess.run\<close> returns or raises a
  \<open>SubprocessError\<close>; analyse returns one for every unknown analysis type and, for a
  known one, whenever \<open>subprocess.run\<close> returns or raises a \<open>SubprocessError\<close>.
\<close>

theorem result_is_outcome_or_error:
  "(snd (capture_packets iface duration filter_str output_file w) = Inr r \<longrightarrow>
      dom r = {''success'', ''stdout'', ''stderr'', ''output_file''}
      \<or> dom r = {''success'', ''error''})
   \<and> (snd (read_capture_file file_path filter_str limit w) = Inr r \<longrightarrow>
      dom r = {''success'', ''stdout'', ''stderr''} \<or> dom r = {''success'', ''error''})
   \<and> (snd (analyze_capture file_path analysis_type w) = Inr r \<longrightarrow>
      dom r = {''success'', ''stdout'', ''stderr''} \<or> dom r = {''success'', ''error''})
   \<and> (snd (wireshark_capture_packets iface duration filter_str output_file w) = Inr r \<longrightarrow>
      dom r = {''success'', ''stdout'', ''stderr'', ''output_file''}
      \<or> dom r = {''success'', ''error''})
   \<and> (\<exists>r'. snd (wireshark_capture_packets iface duration filter_str output_file w) = Inr r')
   \<and> (respond w (capture_cmd iface duration filter_str output_file) = Exited rc out err
        \<or> respond w (capture_cmd iface duration filter_str output_file) = Fails e
          \<and> is_SubprocessError (exc_cls e) \<longrightarrow>
      (\<exists>r'. snd (capture_packets iface duration filter_str output_file w) = Inr r'))
   \<and> (respond w (read_cmd file_path filter_str limit) = Exited rc out err
        \<or> respond w (read_cmd file_path filter_str limit) = Fails e
          \<and> is_SubprocessError (exc_cls e) \<longrightarrow>
      (\<exists>r'. snd (read_capture_file file_path filter_str limit w) = Inr r'))
   \<and> (map_of supported_types analysis_type = None \<longrightarrow>
      (\<exists>r'. snd (analyze_capture file_path analysis_type w) = Inr r'))
   \<and> (map_of supported_types analysis_type = Some selector
        \<and> (respond w (analyze_cmd file_path selector) = Exited rc out err
           \<or> respond w (analyze_cmd file_path selector) = Fails e
             \<and> is_SubprocessError (exc_cls e)) \<longrightarrow>
      (\<exists>r'. snd (analyze_capture file_path analysis_type w) = Inr r'))"
proof (intro conjI impI)
  show "dom r = {''success'', ''stdout'', ''stderr'', ''output_file''}
      \<or> dom r = {''success'', ''error''}"
    if "snd (capture_packets iface duration filter_str output_file w) = Inr r"
    using that by (rule capture_packets_dom)
  show "dom r = {''success'', ''stdout'', ''stderr''} \<or> dom r = {''success'', ''error''}"
    if "snd (read_capture_file file_path filter_str limit w) = Inr r"
    using that by (rule read_capture_file_dom)
  show "dom r = {''success'', ''stdout'', ''stderr''} \<or> dom r = {''success'', ''error''}"
    if "snd (analyze_capture file_path analysis_type w) = Inr r"
    using that by (rule analyze_capture_dom)
  show "dom r = {''success'', ''stdout'', ''stderr'', ''output_file''}
      \<or> dom r = {''success'', ''error''}"
    if "snd (wireshark_capture_packets iface duration filter_str output_file w) = Inr r"
    using that by (rule tool_dom)
  show "\<exists>r'. snd (wireshark_capture_packets iface duration filter_str output_file w) = Inr r'"
    by (rule tool_returns)
  show "\<exists>r'. snd (capture_packets iface duration filter_str output_file w) = Inr r'"
    if "respond w (capture_cmd iface duration filter_str output_file) = Exited rc out err
        \<or> respond w (capture_cmd iface duration filter_str output_file) = Fails e
          \<and> is_SubprocessError (exc_cls e)"
    using that capture_packets_exited capture_packets_fails by fastforce
  show "\<exists>r'. snd (read_capture_file file_path filter_str limit w) = Inr r'"
    if "respond w (read_cmd file_path filter_str limit) = Exited rc out err
        \<or> respond w (read_cmd file_path filter_str limit) = Fails e
          \<and> is_SubprocessError (exc_cls e)"
    using that read_capture_file_exited read_capture_file_fails by fastforce
  show "\<exists>r'. snd (analyze_capture file_path analysis_type w) = Inr r'"
    if "map_of supported_types analysis_type = None"
    using that by (simp add: analyze_capture_def)
  show "\<exists>r'. snd (analyze_capture file_path analysis_type w) = Inr r'"
    if "map_of supported_types analysis_type = Some selector
        \<and> (respond w (analyze_cmd file_path selector) = Exited rc out err
           \<or> respond w (analyze_cmd file_path selector) = Fails e
             \<and> is_SubprocessError (exc_cls e))"
    using that analyze_capture_exited analyze_capture_fails by fastforce
qed

theorem result_is_outcome_or_error_witness:
  "snd (capture_packets (ascii ''1'') 5 None None (always (Exited 0 [] []))) =
     Inr [''success'' \<mapsto> PyBool True, ''stdout'' \<mapsto> PyStr [], ''stderr'' \<mapsto> PyStr [],
          ''output_file'' \<mapsto> PyNone]
   \<and> (dom [''success'' \<mapsto> PyBool True, ''stdout'' \<mapsto> PyStr [], ''stderr'' \<mapsto> PyStr [],
          ''output_file'' \<mapsto> PyNone] = {''success'', ''stdout'', ''stderr'', ''output_file''}
      \<or> dom [''success'' \<mapsto> PyBool True, ''stdout'' \<mapsto> PyStr [], ''stderr'' \<mapsto> PyStr [],
          ''output_file'' \<mapsto> PyNone] = {''success'', ''error''})
   \<and> snd (read_capture_file (ascii ''a.pcap'') None None
          (always (Fails (Exc TimeoutExpired (ascii ''timed out''))))) =
     Inr (failure (ascii ''timed out''))
   \<and> (dom (failure (ascii ''timed out'')) = {''success'', ''stdout'', ''stderr''}
      \<or> dom (failure (ascii ''timed out'')) = {''success'', ''error''})
   \<and> (\<exists>r'. snd (capture_packets (ascii ''1'') 5 None None (always (Exited 0 [] []))) = Inr r')
   \<and> (\<exists>r'. snd (read_capture_file (ascii ''a.pcap'') None None
          (always (Fails (Exc TimeoutExpired (ascii ''timed out''))))) = Inr r')
   \<and> (\<exists>r'. snd (analyze_capture (ascii ''a.pcap'') (ascii ''tcp'')
          (always (Exited 0 [] []))) = Inr r')
   \<and> (\<exists>r'. snd (analyze_capture (ascii ''a.pcap'') (ascii ''dns'')
          (always (Exited 0 [] []))) = Inr r')"
proof -
  let ?w = "always (Exited 0 [] [])"
    and ?v = "always (Fails (Exc TimeoutExpired (ascii ''timed out'')))"
  let ?r = "[''success'' \<mapsto> PyBool True, ''stdout'' \<mapsto> PyStr [], ''stderr'' \<mapsto> PyStr [],
          ''output_file'' \<mapsto> PyNone]"
  have a: "snd (capture_packets (ascii ''1'') 5 None None ?w) = Inr ?r"
    by (simp add: capture_packets_def subprocess_run_def always_def)
  have b: "snd (read_capture_file (ascii ''a.pcap'') None None ?v) =
      Inr (failure (ascii ''timed out''))"
    by (simp add: read_capture_file_def subprocess_run_def always_def)
  have rw: "respond ?w c = Exited 0 [] []" for c
    by (simp add: always_def)
  have rv: "respond ?v c = Fails (Exc TimeoutExpired (ascii ''timed out''))
      \<and> is_SubprocessError (exc_cls (Exc TimeoutExpired (ascii ''timed out'')))" for c
    by (simp add: always_def)
  have mt: "map_of supported_types (ascii ''tcp'') = None"
    by (simp add: supported_types_def ascii_def)
  have md: "map_of supported_types (ascii ''dns'') = Some (ascii ''dns,tree'')"
    by (simp add: supported_types_def ascii_def)
  note t1 = result_is_outcome_or_error
    [where iface = "ascii ''1''" and duration = 5 and filter_str = None and output_file = None
       and w = ?w and r = ?r and rc = 0 and out = "[]" and err = "[]"
       and file_path = "ascii ''a.pcap''" and analysis_type = "ascii ''tcp''"]
  note t2 = result_is_outcome_or_error
    [where filter_str = None and w = ?v and r = "failure (ascii ''timed out'')"
       and file_path = "ascii ''a.pcap''" and limit = None
       and e = "Exc TimeoutExpired (ascii ''timed out'')"]
  note t3 = result_is_outcome_or_error
    [where w = ?w and rc = 0 and out = "[]" and err = "[]"
       and file_path = "ascii ''a.pcap''" and analysis_type = "ascii ''dns''"
       and selector = "ascii ''dns,tree''"]
  have c: "dom ?r = {''success'', ''stdout'', ''stderr'', ''output_file''}
      \<or> dom ?r = {''success'', ''error''}"
    by (rule t1 [THEN conjunct1, rule_format, OF a])
  have d: "dom (failure (ascii ''timed out'')) = {''success'', ''stdout'', ''stderr''}
      \<or> dom (failure (ascii ''timed out'')) = {''success'', ''error''}"
    by (rule t2 [THEN conjunct2, THEN conjunct1, rule_format, OF b])
  have e: "\<exists>r'. snd (capture_packets (ascii ''1'') 5 None None ?w) = Inr r'"
    by (rule t1 [THEN conjunct2, THEN conjunct2, THEN conjunct2, THEN conjunct2,
          THEN conjunct2, THEN conjunct1, rule_format, OF disjI1, OF rw])
  have f: "\<exists>r'. snd (read_capture_file (ascii ''a.pcap'') None None ?v) = Inr r'"
    by (rule t2 [THEN conjunct2, THEN conjunct2, THEN conjunct2, THEN conjunct2,
          THEN conjunct2, THEN conjunct2, THEN conjunct1, rule_format, OF disjI2, OF rv])
  have g: "\<exists>r'. snd (analyze_capture (ascii ''a.pcap'') (ascii ''tcp'') ?w) = Inr r'"
    by (rule t1 [THEN conjunct2, THEN conjunct2, THEN conjunct2, THEN conjunct2,
          THEN conjunct2, THEN conjunct2, THEN conjunct2, THEN conjunct1, rule_format, OF mt])
  have h: "\<exists>r'. snd (analyze_capture (ascii ''a.pcap'') (ascii ''dns'') ?w) = Inr r'"
    by (rule t3 [THEN conjunct2, THEN conjunct2, THEN conjunct2, THEN conjunct2,
          THEN conjunct2, THEN conjunct2, THEN conjunct2, THEN conjunct2, rule_format,
          OF conjI, OF md disjI1, OF rw])
  show ?thesis
    by (intro conjI) (rule a b c d e f g h)+
qed

text \<open>
  C8 as stated fails. Not every handler has the two shapes: the health check answers an
  unusable probe with the keys \<open>status\<close>, \<open>error\<close> and \<open>timestamp\<close>, an error field
  beside the status and timestamp of its healthy answer and no \<open>success\<close>, and its
  healthy answer has neither \<open>success\<close> nor \<open>stdout\<close> nor \<open>error\<close>. And not every
  call returns a result: with the binary absent, read and analyse raise.
\<close>

theorem health_check_shape_and_read_raises:
  "snd (wireshark_health_check (always (Fails (Exc PermissionError (ascii ''Permission denied''))))) =
     Inr (health_error (always (Fails (Exc PermissionError (ascii ''Permission denied''))))
            (Exc PermissionError (ascii ''Permission denied'')))
   \<and> dom (health_error (always (Fails (Exc PermissionError (ascii ''Permission denied''))))
            (Exc PermissionError (ascii ''Permission denied''))) =
       {''status'', ''error'', ''timestamp''}
   \<and> snd (wireshark_health_check (always (Exited 0 [] []))) =
       Inr [''status'' \<mapsto> PyStr (ascii ''ok''), ''wireshark_installed'' \<mapsto> PyBool True,
            ''interface_count'' \<mapsto> PyInt 0, ''timestamp'' \<mapsto> PyTime 1700000000]
   \<and> snd (read_capture_file (ascii ''a.pcap'') None (Some 100)
          (always (Fails (Exc FileNotFoundError (ascii ''No such file or directory''))))) =
       Inl (Exc FileNotFoundError (ascii ''No such file or directory''))
   \<and> snd (analyze_capture (ascii ''a.pcap'') (ascii ''http'')
          (always (Fails (Exc FileNotFoundError (ascii ''No such file or directory''))))) =
       Inl (Exc FileNotFoundError (ascii ''No such file or directory''))"
proof (intro conjI)
  let ?p = "always (Fails (Exc PermissionError (ascii ''Permission denied'')))"
  show "snd (wireshark_health_check ?p) =
     Inr (health_error ?p (Exc PermissionError (ascii ''Permission denied'')))"
    by (simp add: wireshark_health_check_def check_wireshark_installed_def subprocess_run_def
        always_def health_error_def)
  show "dom (health_error ?p (Exc PermissionError (ascii ''Permission denied''))) =
       {''status'', ''error'', ''timestamp''}"
    by (auto simp: health_error_def)
  show "snd (wireshark_health_check (always (Exited 0 [] []))) =
       Inr [''status'' \<mapsto> PyStr (ascii ''ok''), ''wireshark_installed'' \<mapsto> PyBool True,
            ''interface_count'' \<mapsto> PyInt 0, ''timestamp'' \<mapsto> PyTime 1700000000]"
    by (simp add: wireshark_health_check_def check_wireshark_installed_def
        get_available_interfaces_def subprocess_run_def always_def py_strip_def)
  show "snd (read_capture_file (ascii ''a.pcap'') None (Some 100)
          (always (Fails (Exc FileNotFoundError (ascii ''No such file or directory''))))) =
       Inl (Exc FileNotFoundError (ascii ''No such file or directory''))"
    by (simp add: read_capture_file_def subprocess_run_def always_def)
  show "snd (analyze_capture (ascii ''a.pcap'') (ascii ''http'')
          (always (Fails (Exc FileNotFoundError (ascii ''No such file or directory''))))) =
       Inl (Exc FileNotFoundError (ascii ''No such file or directory''))"
    by (simp add: analyze_capture_def supported_types_def subprocess_run_def always_def ascii_def)
qed

subsection \<open>Read\<close>



subsection \<open>The capture tool never raises\<close>

text \<open>
  C10. For every input and every behaviour of the system, \<open>wireshark_capture_packets\<close>
  returns a dictionary with a boolean under \<open>success\<close>. Whatever the body of its
  \<open>try\<close> raises is returned as the dictionary with \<open>success\<close> false and \<open>error\<close> the
  text of the exception.
\<close>

theorem capture_tool_never_raises:
  "(\<exists>r b. snd (wireshark_capture_packets iface duration filter_str output_file w) = Inr r
      \<and> r ''success'' = Some (PyBool b))
   \<and> (snd (capture_tool_body iface duration filter_str output_file w) = Inl e \<longrightarrow>
        snd (wireshark_capture_packets iface duration filter_str output_file w) =
          Inr (failure (exc_str e))
        \<and> failure (exc_str e) ''success'' = Some (PyBool False)
        \<and> failure (exc_str e) ''error'' = Some (PyStr (exc_str e)))"
proof (intro conjI impI)
  let ?o = "if \<not> truthy_str output_file then Some (default_output_file w) else output_file"
  show "\<exists>r b. snd (wireshark_capture_packets iface duration filter_str output_file w) = Inr r
      \<and> r ''success'' = Some (PyBool b)"
  proof (cases "respond w (capture_cmd iface duration filter_str ?o)")
    case (Exited rc out err)
    from capture_packets_exited [OF this] show ?thesis
      by (simp add: tool_result)
  next
    case (Fails x)
    from capture_packets_fails [OF this] show ?thesis
      by (auto simp: tool_result failure_fields)
  qed
  assume h: "snd (capture_tool_body iface duration filter_str output_file w) = Inl e"
  then show "snd (wireshark_capture_packets iface duration filter_str output_file w) =
          Inr (failure (exc_str e))"
    by (cases "capture_tool_body iface duration filter_str output_file w")
      (simp add: wireshark_capture_packets_def)
  show "failure (exc_str e) ''success'' = Some (PyBool False)"
    by (simp add: failure_fields)
  show "failure (exc_str e) ''error'' = Some (PyStr (exc_str e))"
    by (simp add: failure_fields)
qed

theorem capture_tool_never_raises_witness:
  "snd (capture_tool_body (ascii ''1'') 5 None None
          (always (Fails (Exc PermissionError (ascii ''Permission denied''))))) =
     Inl (Exc PermissionError (ascii ''Permission denied''))
   \<and> snd (wireshark_capture_packets (ascii ''1'') 5 None None
          (always (Fails (Exc PermissionError (ascii ''Permission denied''))))) =
     Inr (failure (ascii ''Permission denied''))"
proof -
  let ?w = "always (Fails (Exc PermissionError (ascii ''Permission denied'')))"
  have b: "snd (capture_tool_body (ascii ''1'') 5 None None ?w) =
      Inl (Exc PermissionError (ascii ''Permission denied''))"
    by (simp add: capture_tool_body_def capture_packets_def subprocess_run_def always_def Let_def)
  show ?thesis
    using capture_tool_never_raises [of "ascii ''1''" 5 None None ?w
        "Exc PermissionError (ascii ''Permission denied'')"] b
    by simp
qed

end
